theory Spec2Isabelle
  imports Complex_Main "HOL-Library.Sublist"
begin

section \<open>Python values\<close>

text \<open>
  A Python \<open>str\<close> is a sequence of Unicode code points, and \<open>len\<close> counts code points:
  strings are lists of code points. \<open>ustr\<close> writes an ASCII literal.
\<close>

type_synonym pystr = "nat list"

definition ustr :: "string \<Rightarrow> pystr" where
  "ustr s = map of_char s"

text \<open>
  Values that cross the scripting boundary. \<open>PObject\<close> stands for any object that is
  none of the JSON-compatible kinds (it carries the name of its type); a dictionary
  keeps its insertion order.
\<close>

datatype pyval =
    PNone
  | PBool bool
  | PInt int
  | PFloat rat
  | PStr pystr
  | PList "pyval list"
  | PDict "(pystr \<times> pyval) list"
  | PObject pystr

text \<open>
  A raised exception: the name of its class (\<open>type(e).__name__\<close>), its message
  (\<open>str(e)\<close>), and whether the class derives from \<open>Exception\<close>, which is what an
  \<open>except Exception\<close> clause catches.
\<close>

datatype pyexc = PyExc (is_Exception: bool) (exc_kind: pystr) (exc_message: pystr)

definition TypeError :: "pystr \<Rightarrow> pyexc" where
  "TypeError msg = PyExc True (ustr ''TypeError'') msg"

definition ValueError :: "pystr \<Rightarrow> pyexc" where
  "ValueError msg = PyExc True (ustr ''ValueError'') msg"

text \<open>Decimal rendering of an integer inside an f-string.\<close>

fun str_of_nat :: "nat \<Rightarrow> pystr" where
  "str_of_nat n = (if n < 10 then [48 + n] else str_of_nat (n div 10) @ [48 + n mod 10])"

declare str_of_nat.simps [simp del]

definition str_of_int :: "int \<Rightarrow> pystr" where
  "str_of_int i = (if i < 0 then 45 # str_of_nat (nat (- i)) else str_of_nat (nat i))"

section \<open>Character classes and the anchored patterns\<close>

text \<open>
  \<open>str.isspace\<close> on one code point. \<open>str.strip()\<close> and the pattern class \<open>\s\<close> of a
  \<open>str\<close> pattern both use it.
\<close>

definition isspace :: "nat \<Rightarrow> bool" where
  "isspace c = ((9 \<le> c \<and> c \<le> 13) \<or> (28 \<le> c \<and> c \<le> 32) \<or> c = 133 \<or> c = 160 \<or> c = 5760
               \<or> (8192 \<le> c \<and> c \<le> 8202) \<or> c = 8232 \<or> c = 8233 \<or> c = 8239
               \<or> c = 8287 \<or> c = 12288)"

definition py_strip :: "pystr \<Rightarrow> pystr" where
  "py_strip s = rev (dropWhile isspace (rev (dropWhile isspace s)))"

text \<open>
  The Unicode character database is not part of the repository; the tables the patterns
  consult are parameters: \<open>isalnum\<close> (the class \<open>\w\<close> is \<open>isalnum\<close> or an underscore)
  and \<open>isdecimal\<close> (the class \<open>\d\<close>). The ASCII parts of both tables:
\<close>

definition ascii_isalnum :: "nat \<Rightarrow> bool" where
  "ascii_isalnum c = ((48 \<le> c \<and> c \<le> 57) \<or> (65 \<le> c \<and> c \<le> 90) \<or> (97 \<le> c \<and> c \<le> 122))"

definition ascii_isdecimal :: "nat \<Rightarrow> bool" where
  "ascii_isdecimal c = (48 \<le> c \<and> c \<le> 57)"

text \<open>
  \<open>re.match\<close> of \<open>^[class]+$\<close> without \<open>re.MULTILINE\<close>: the greedy \<open>+\<close> takes the longest
  run of class characters and gives characters back until \<open>$\<close> matches, which it does at
  the end of the string and just before a newline that ends the string.
\<close>

definition re_match_plus_dollar :: "(nat \<Rightarrow> bool) \<Rightarrow> pystr \<Rightarrow> bool" where
  "re_match_plus_dollar cls s =
     (let n = length (takeWhile cls s)
      in (1 \<le> n \<and> n = length s) \<or> (2 \<le> length s \<and> length s - 1 \<le> n \<and> last s = 10))"

section \<open>security.py: InputValidator.validate_text\<close>

definition MAX_TEXT_LENGTH :: int where
  "MAX_TEXT_LENGTH = 500"

text \<open>
  The character class of the default pattern \<open>^[\w\s.,!?;:\-\'...]+$\<close>, whose last four
  members are the CJK corner brackets, full stop and comma (U+300C, U+300D, U+3002, U+3001).
\<close>

definition text_char :: "(nat \<Rightarrow> bool) \<Rightarrow> nat \<Rightarrow> bool" where
  "text_char isalnum c =
     (isalnum c \<or> c = 95 \<or> isspace c
      \<or> c = 46 \<or> c = 44 \<or> c = 33 \<or> c = 63 \<or> c = 59 \<or> c = 58 \<or> c = 45 \<or> c = 39
      \<or> c = 12300 \<or> c = 12301 \<or> c = 12290 \<or> c = 12289)"

definition DEFAULT_TEXT_PATTERN :: "(nat \<Rightarrow> bool) \<Rightarrow> pystr \<Rightarrow> bool" where
  "DEFAULT_TEXT_PATTERN isalnum s = re_match_plus_dollar (text_char isalnum) s"

text \<open>
  The argument \<open>pattern\<close> is the matcher \<open>re.match(pattern, _, re.UNICODE | re.DOTALL)\<close>.
\<close>

definition validate_text :: "pyval \<Rightarrow> int \<Rightarrow> (pystr \<Rightarrow> bool) \<Rightarrow> bool \<Rightarrow> pyexc + pystr" where
  "validate_text text max_length pattern allow_newlines =
     (case text of
        PStr s \<Rightarrow>
          if int (length s) > max_length
          then Inl (ValueError (ustr ''Text too long: '' @ str_of_int (int (length s))
                                @ ustr '' > '' @ str_of_int max_length))
          else
            (let s1 = (if allow_newlines
                       then filter (\<lambda>c. c \<ge> 32 \<or> c = 10 \<or> c = 9) s
                       else filter (\<lambda>c. c \<ge> 32 \<and> c \<noteq> 10 \<and> c \<noteq> 13) s)
             in if \<not> pattern s1
                then Inl (ValueError (ustr ''Text contains invalid characters''))
                else Inr (py_strip s1))
      | _ \<Rightarrow> Inl (TypeError (ustr ''Expected string input'')))"

section \<open>security.py: RateLimiter\<close>

text \<open>
  The class attributes \<open>_buckets\<close>, \<open>_call_counts\<close> and \<open>_last_cleanup\<close> are the state;
  \<open>check\<close> takes it and returns it updated. \<open>time.time()\<close> is the argument \<open>now\<close>.
  Time stamps and token counts are Python floats; the model computes with exact
  rationals, which is what the float arithmetic yields wherever it is exact.
\<close>

record rate_limiter =
  buckets :: "pystr \<rightharpoonup> (rat \<times> rat)"
  call_counts :: "pystr \<rightharpoonup> int"
  last_cleanup :: rat

definition RATE_LIMITER_CLEANUP_INTERVAL_SEC :: rat where
  "RATE_LIMITER_CLEANUP_INTERVAL_SEC = 300"

definition RATE_LIMITER_STALE_THRESHOLD_SEC :: rat where
  "RATE_LIMITER_STALE_THRESHOLD_SEC = 3600"

definition bucket_key :: "pystr \<Rightarrow> pystr \<Rightarrow> pystr" where
  "bucket_key identifier operation = identifier @ ustr '':'' @ operation"

definition stale_key :: "rate_limiter \<Rightarrow> rat \<Rightarrow> pystr \<Rightarrow> bool" where
  "stale_key st now key =
     (case buckets st key of
        None \<Rightarrow> False
      | Some (tokens, last_refill) \<Rightarrow> now - last_refill > RATE_LIMITER_STALE_THRESHOLD_SEC)"

definition cleanup_stale_entries :: "rate_limiter \<Rightarrow> rat \<Rightarrow> rate_limiter" where
  "cleanup_stale_entries st now =
     st\<lparr>buckets := (\<lambda>key. if stale_key st now key then None else buckets st key),
        call_counts := (\<lambda>key. if stale_key st now key then None else call_counts st key)\<rparr>"

definition check :: "rate_limiter \<Rightarrow> rat \<Rightarrow> pystr \<Rightarrow> pystr \<Rightarrow> int \<Rightarrow> bool \<times> rate_limiter" where
  "check st now identifier operation max_per_second =
     (let st1 = (if now - last_cleanup st > RATE_LIMITER_CLEANUP_INTERVAL_SEC
                 then (cleanup_stale_entries st now)\<lparr>last_cleanup := now\<rparr>
                 else st);
          key = bucket_key identifier operation
      in case buckets st1 key of
           None \<Rightarrow>
             (True, st1\<lparr>buckets := (buckets st1)(key \<mapsto> (of_int max_per_second, now)),
                        call_counts := (call_counts st1)(key \<mapsto> 1)\<rparr>)
         | Some (tokens, last_refill) \<Rightarrow>
             (let elapsed = now - last_refill;
                  tokens' = min (of_int max_per_second)
                                (tokens + elapsed * of_int max_per_second)
              in if tokens' \<ge> 1
                 then (True,
                       st1\<lparr>buckets := (buckets st1)(key \<mapsto> (tokens' - 1, now)),
                           call_counts := (call_counts st1)
                             (key \<mapsto> (case call_counts st1 key of None \<Rightarrow> 0 | Some n \<Rightarrow> n) + 1)\<rparr>)
                 else (False, st1)))"

definition get_call_count :: "rate_limiter \<Rightarrow> pystr \<Rightarrow> pystr \<Rightarrow> int" where
  "get_call_count st identifier operation =
     (case call_counts st (bucket_key identifier operation) of None \<Rightarrow> 0 | Some n \<Rightarrow> n)"


text \<open>A limiter holding one exhausted bucket, and an empty one.\<close>

definition exhausted_limiter :: rate_limiter where
  "exhausted_limiter =
     \<lparr>buckets = [bucket_key (ustr ''t'') (ustr ''f'') \<mapsto> (0, 1000)],
      call_counts = [bucket_key (ustr ''t'') (ustr ''f'') \<mapsto> 11],
      last_cleanup = 1000\<rparr>"

definition empty_limiter :: rate_limiter where
  "empty_limiter = \<lparr>buckets = Map.empty, call_counts = Map.empty, last_cleanup = 0\<rparr>"

section \<open>security.py: sanitize_for_logging\<close>
















section \<open>api_bridge.py: the command router\<close>

text \<open>
  What the router takes from outside the repository: the table behind \<open>\d\<close>,
  \<open>hashlib.sha256(content.encode('utf-8')).hexdigest()\<close>, \<open>json.loads\<close> and
  \<open>json.dumps(_, ensure_ascii=True)\<close>, each of the last three returning or raising.
\<close>

record pylib =
  isdecimal :: "nat \<Rightarrow> bool"
  sha256_hexdigest :: "pystr \<Rightarrow> pyexc + pystr"
  json_loads :: "pystr \<Rightarrow> pyexc + pyval"
  json_dumps :: "pyval \<Rightarrow> pyexc + pystr"

definition generate_template_hash :: "pylib \<Rightarrow> pystr \<Rightarrow> pyexc + pystr" where
  "generate_template_hash lib template_content = sha256_hexdigest lib template_content"

definition MAX_JSON_PAYLOAD_BYTES :: int where
  "MAX_JSON_PAYLOAD_BYTES = 10 * 1024"

definition DEFAULT_API_RATE_LIMIT_PER_SECOND :: int where
  "DEFAULT_API_RATE_LIMIT_PER_SECOND = 10"

text \<open>
  The reviewer as the router sees it: \<open>card\<close> is \<open>None\<close> without a current card and
  otherwise what \<open>str(reviewer.card.template().get('qfmt', ''))\<close> returns or raises;
  \<open>web\<close> tells whether there is a web view, whose \<open>eval\<close> receives the script.
\<close>

record reviewer =
  card :: "(pyexc + pystr) option"
  web :: bool

text \<open>
  A registered function is called with keyword arguments or with one positional
  argument, and returns or raises.
\<close>

datatype call_args = Keywords "(pystr \<times> pyval) list" | Positional pyval

type_synonym api_function = "call_args \<Rightarrow> pyexc + pyval"

text \<open>\<open>s.split(sep, maxsplit)\<close> for a separator of one character.\<close>

fun py_split :: "pystr \<Rightarrow> nat \<Rightarrow> nat \<Rightarrow> pystr list" where
  "py_split s sep 0 = [s]"
| "py_split s sep (Suc n) =
     (case dropWhile (\<lambda>c. c \<noteq> sep) s of
        [] \<Rightarrow> [s]
      | _ # rest \<Rightarrow> takeWhile (\<lambda>c. c \<noteq> sep) s # py_split rest sep n)"

text \<open>
  \<open>InputValidator._CALLBACK_ID_PATTERN.match\<close>, the pattern \<open>^-?\d+$\<close>: the optional
  minus sign (code point 45) is taken first and given back if the rest fails.
\<close>

definition CALLBACK_ID_PATTERN_match :: "(nat \<Rightarrow> bool) \<Rightarrow> pystr \<Rightarrow> bool" where
  "CALLBACK_ID_PATTERN_match isdec s =
     ((case s of [] \<Rightarrow> False | c # r \<Rightarrow> c = 45 \<and> re_match_plus_dollar isdec r)
      \<or> re_match_plus_dollar isdec s)"

definition failure_response :: "pystr \<Rightarrow> pyval" where
  "failure_response msg = PDict [(ustr ''success'', PBool False), (ustr ''error'', PStr msg)]"

definition success_response :: "pyval \<Rightarrow> pyval" where
  "success_response result = PDict [(ustr ''success'', PBool True), (ustr ''result'', result)]"

definition callback_js :: "pystr \<Rightarrow> pystr \<Rightarrow> pystr" where
  "callback_js callback_id response_json =
     ustr ''window._ankidroidJsCallback('' @ callback_id @ ustr '', '' @ response_json @ ustr '');''"

text \<open>
  \<open>_send_callback\<close>: the scripts handed to \<open>reviewer.web.eval\<close>, or the exception that
  \<open>json.dumps\<close> raised. Debug logging only prints and is left out throughout.
\<close>

definition send_callback :: "pylib \<Rightarrow> reviewer option \<Rightarrow> pystr \<Rightarrow> pyval \<Rightarrow> pyexc + pystr list" where
  "send_callback lib rv callback_id response =
     (if \<not> CALLBACK_ID_PATTERN_match (isdecimal lib) callback_id then Inr []
      else case json_dumps lib response of
             Inl e \<Rightarrow> Inl e
           | Inr response_json \<Rightarrow>
               Inr (case rv of
                      None \<Rightarrow> []
                    | Some r \<Rightarrow> if web r then [callback_js callback_id response_json] else []))"

text \<open>Lines 85 to 91 of \<open>handle_pycmd\<close>: the caller identity; the bare \<open>except\<close> catches all.\<close>

definition template_identifier :: "pylib \<Rightarrow> reviewer option \<Rightarrow> pystr" where
  "template_identifier lib rv =
     (case rv of
        None \<Rightarrow> ustr ''unknown''
      | Some r \<Rightarrow>
          (case card r of
             None \<Rightarrow> ustr ''unknown''
           | Some (Inl e) \<Rightarrow> ustr ''unknown''
           | Some (Inr template_content) \<Rightarrow>
               (case generate_template_hash lib template_content of
                  Inl e \<Rightarrow> ustr ''unknown''
                | Inr h \<Rightarrow> take 16 h)))"

text \<open>The call \<open>func(**args) if isinstance(args, dict) else func(args)\<close>.\<close>

definition apply_api :: "api_function \<Rightarrow> pyval \<Rightarrow> pyexc + pyval" where
  "apply_api func args = (case args of PDict kw \<Rightarrow> func (Keywords kw) | _ \<Rightarrow> func (Positional args))"

text \<open>The parsed arguments, \<open>json.loads(args_json) if args_json else {}\<close>.\<close>

definition parse_args :: "pylib \<Rightarrow> pystr \<Rightarrow> pyexc + pyval" where
  "parse_args lib args_json = (if args_json \<noteq> [] then json_loads lib args_json else Inr (PDict []))"

text \<open>
  The body of the \<open>try\<close> statement of \<open>handle_pycmd\<close> (lines 112 to 127): size check,
  argument parsing, the call, and the delivery of the success response.
\<close>

definition invoke_api ::
  "pylib \<Rightarrow> (pystr \<rightharpoonup> api_function) \<Rightarrow> reviewer option \<Rightarrow> pystr \<Rightarrow> pystr \<Rightarrow> pystr
     \<Rightarrow> pyexc + pystr list" where
  "invoke_api lib API_REGISTRY rv callback_id function_name args_json =
     (if int (length args_json) > MAX_JSON_PAYLOAD_BYTES
      then Inl (ValueError (ustr ''JSON payload too large: ''
                            @ str_of_int (int (length args_json)) @ ustr '' bytes''))
      else
        case parse_args lib args_json of
          Inl e \<Rightarrow> Inl e
        | Inr args \<Rightarrow>
            (case API_REGISTRY function_name of
               None \<Rightarrow> Inl (PyExc True (ustr ''KeyError'') function_name)
             | Some func \<Rightarrow>
                 (case apply_api func args of
                    Inl e \<Rightarrow> Inl e
                  | Inr result \<Rightarrow> send_callback lib rv callback_id (success_response result))))"

text \<open>
  The outcome of one \<open>handle_pycmd\<close> call: the rate limiter afterwards, the scripts
  evaluated in the web view, and the exception that left the function, if any.
\<close>

record pycmd_outcome =
  limiter :: rate_limiter
  evaluated :: "pystr list"
  raised :: "pyexc option"

definition outcome :: "rate_limiter \<Rightarrow> pyexc + pystr list \<Rightarrow> pycmd_outcome" where
  "outcome st r =
     (case r of
        Inl e \<Rightarrow> \<lparr>limiter = st, evaluated = [], raised = Some e\<rparr>
      | Inr scripts \<Rightarrow> \<lparr>limiter = st, evaluated = scripts, raised = None\<rparr>)"

text \<open>
  Lines 71 to 82: the envelope. \<open>None\<close> is a command that is ignored or dropped,
  otherwise the callback id, the function name and the argument text.
\<close>

definition parse_pycmd :: "pystr \<Rightarrow> (pystr \<times> pystr \<times> pystr) option" where
  "parse_pycmd cmd =
     (if \<not> prefix (ustr ''ankidroidjs:'') cmd then None
      else case py_split cmd 58 3 of
             p0 # callback_id # function_name # rest \<Rightarrow>
               Some (callback_id, function_name, (case rest of [] \<Rightarrow> ustr ''{}'' | a # _ \<Rightarrow> a))
           | _ \<Rightarrow> None)"

definition handle_pycmd ::
  "pylib \<Rightarrow> (pystr \<rightharpoonup> api_function) \<Rightarrow> rate_limiter \<Rightarrow> rat \<Rightarrow> reviewer option \<Rightarrow> pystr
     \<Rightarrow> pycmd_outcome" where
  "handle_pycmd lib API_REGISTRY st now rv cmd =
     (case parse_pycmd cmd of
        None \<Rightarrow> \<lparr>limiter = st, evaluated = [], raised = None\<rparr>
      | Some (callback_id, function_name, args_json) \<Rightarrow>
          (let template_id = template_identifier lib rv;
               (allowed, st1) = check st now template_id function_name
                                  DEFAULT_API_RATE_LIMIT_PER_SECOND
           in if \<not> allowed
              then outcome st1 (send_callback lib rv callback_id
                                  (failure_response (ustr ''Rate limit exceeded'')))
              else if API_REGISTRY function_name = None
              then outcome st1 (send_callback lib rv callback_id
                                  (failure_response (ustr ''Unknown API function: '' @ function_name)))
              else
                (case invoke_api lib API_REGISTRY rv callback_id function_name args_json of
                   Inr scripts \<Rightarrow> \<lparr>limiter = st1, evaluated = scripts, raised = None\<rparr>
                 | Inl e \<Rightarrow>
                     if is_Exception e
                     then outcome st1 (send_callback lib rv callback_id
                                         (failure_response (ustr ''Operation failed: '' @ exc_kind e)))
                     else \<lparr>limiter = st1, evaluated = [], raised = Some e\<rparr>)))"

section \<open>Concrete collaborators for evaluating the router\<close>

text \<open>
  A serializer for scalars and for dictionaries of scalars, which covers every response
  of the examples below and agrees with \<open>json.dumps\<close> on plain ASCII strings; any other
  value is rejected the way \<open>json.dumps\<close> rejects an object it cannot encode.
\<close>

fun sample_json_scalar :: "pyval \<Rightarrow> pystr option" where
  "sample_json_scalar PNone = Some (ustr ''null'')"
| "sample_json_scalar (PBool b) = Some (if b then ustr ''true'' else ustr ''false'')"
| "sample_json_scalar (PInt i) = Some (str_of_int i)"
| "sample_json_scalar (PStr s) = Some (34 # s @ [34])"
| "sample_json_scalar _ = None"

fun sample_json_items :: "(pystr \<times> pyval) list \<Rightarrow> pystr option" where
  "sample_json_items [] = Some []"
| "sample_json_items ((k, v) # items) =
     (case sample_json_scalar v of
        None \<Rightarrow> None
      | Some t \<Rightarrow>
          (case sample_json_items items of
             None \<Rightarrow> None
           | Some ts \<Rightarrow> Some (34 # k @ [34] @ ustr '': '' @ t
                                @ (if items = [] then [] else ustr '', '' @ ts))))"

definition sample_json_dumps :: "pyval \<Rightarrow> pyexc + pystr" where
  "sample_json_dumps v =
     (case v of
        PDict items \<Rightarrow>
          (case sample_json_items items of
             None \<Rightarrow> Inl (TypeError (ustr ''Object is not JSON serializable''))
           | Some ts \<Rightarrow> Inr (ustr ''{'' @ ts @ ustr ''}''))
      | _ \<Rightarrow>
          (case sample_json_scalar v of
             None \<Rightarrow> Inl (TypeError (ustr ''Object is not JSON serializable''))
           | Some t \<Rightarrow> Inr t))"

text \<open>A parser that knows the empty object only, and a constant digest.\<close>

definition sample_json_loads :: "pystr \<Rightarrow> pyexc + pyval" where
  "sample_json_loads s =
     (if s = ustr ''{}'' then Inr (PDict [])
      else Inl (PyExc True (ustr ''JSONDecodeError'') (ustr ''Expecting value'')))"

definition sample_lib :: pylib where
  "sample_lib =
     \<lparr>isdecimal = ascii_isdecimal,
      sha256_hexdigest = (\<lambda>content. Inr (replicate 64 48)),
      json_loads = sample_json_loads,
      json_dumps = sample_json_dumps\<rparr>"

definition sample_reviewer :: "reviewer option" where
  "sample_reviewer = Some \<lparr>card = None, web = True\<rparr>"


text \<open>Two functions that fail with the same kind of exception and different messages.\<close>

definition failing_one :: api_function where
  "failing_one a = Inl (ValueError (ustr ''card 1234 has no field Secret''))"

definition failing_two :: api_function where
  "failing_two a = Inl (ValueError (ustr ''deck is empty''))"

text \<open>A function that returns an object \<open>json.dumps\<close> cannot encode.\<close>

definition returns_object :: api_function where
  "returns_object a = Inr (PObject (ustr ''set''))"

section \<open>Properties of the rate limiter\<close>

lemma cleanup_keeps_live_bucket:
  "buckets (cleanup_stale_entries st now) key = Some b \<Longrightarrow>
     buckets st key = Some b \<and> call_counts (cleanup_stale_entries st now) key = call_counts st key"
  by (auto simp: cleanup_stale_entries_def split: if_splits)

lemma check_rejected_frame:
  assumes "fst (check st now identifier operation max_per_second) = False"
  shows "buckets (snd (check st now identifier operation max_per_second))
           (bucket_key identifier operation) = buckets st (bucket_key identifier operation)
       \<and> call_counts (snd (check st now identifier operation max_per_second))
           (bucket_key identifier operation) = call_counts st (bucket_key identifier operation)"
proof (cases "now - last_cleanup st > RATE_LIMITER_CLEANUP_INTERVAL_SEC")
  case False
  with assms show ?thesis
    by (auto simp: check_def Let_def split: option.splits if_splits prod.splits)
next
  case True
  let ?c = "cleanup_stale_entries st now"
  let ?k = "bucket_key identifier operation"
  from assms True obtain b where b: "buckets ?c ?k = Some b"
    by (auto simp: check_def Let_def split: option.splits)
  from cleanup_keeps_live_bucket[OF b]
  have keep: "buckets st ?k = Some b" "call_counts ?c ?k = call_counts st ?k"
    by simp_all
  from assms True b keep show ?thesis
    by (auto simp: check_def Let_def split: option.splits if_splits prod.splits)
qed

text \<open>
  C7. A rejected \<open>check\<close> leaves the rejected key's bucket (tokens and last refill time)
  and its call counter exactly as they were before the call.
\<close>

theorem check_rejected_key_unchanged:
  assumes "fst (check st now identifier operation max_per_second) = False"
  shows "buckets (snd (check st now identifier operation max_per_second))
           (bucket_key identifier operation) = buckets st (bucket_key identifier operation)
       \<and> call_counts (snd (check st now identifier operation max_per_second))
           (bucket_key identifier operation) = call_counts st (bucket_key identifier operation)"
  using assms by (rule check_rejected_frame)

theorem check_rejected_key_unchanged_witness:
  "fst (check exhausted_limiter 1000 (ustr ''t'') (ustr ''f'') 10) = False
   \<and> buckets (snd (check exhausted_limiter 1000 (ustr ''t'') (ustr ''f'') 10))
        (bucket_key (ustr ''t'') (ustr ''f'')) = Some (0, 1000)
   \<and> call_counts (snd (check exhausted_limiter 1000 (ustr ''t'') (ustr ''f'') 10))
        (bucket_key (ustr ''t'') (ustr ''f'')) = Some 11"
proof -
  have rej: "fst (check exhausted_limiter 1000 (ustr ''t'') (ustr ''f'') 10) = False"
    by (simp add: check_def exhausted_limiter_def RATE_LIMITER_CLEANUP_INTERVAL_SEC_def Let_def)
  from check_rejected_key_unchanged[OF rej] rej show ?thesis
    by (simp add: exhausted_limiter_def)
qed











section \<open>Properties of validate_text\<close>

lemma re_match_plus_dollar_iff:
  assumes "cls 10"
  shows "re_match_plus_dollar cls s \<longleftrightarrow> s \<noteq> [] \<and> (\<forall>c\<in>set s. cls c)"
proof
  assume m: "re_match_plus_dollar cls s"
  then have ne: "s \<noteq> []"
    by (auto simp: re_match_plus_dollar_def Let_def)
  have "takeWhile cls s = s"
  proof (rule ccontr)
    assume neq: "takeWhile cls s \<noteq> s"
    then have lt: "length (takeWhile cls s) < length s"
      by (metis length_takeWhile_le le_neq_implies_less takeWhile_eq_take take_all_iff)
    then have notp: "\<not> cls (s ! length (takeWhile cls s))"
      by (rule nth_length_takeWhile)
    from m lt have "length (takeWhile cls s) = length s - 1" and "last s = 10"
      by (auto simp: re_match_plus_dollar_def Let_def)
    with ne notp have "\<not> cls 10"
      by (simp add: last_conv_nth)
    with assms show False by simp
  qed
  then have "\<forall>c\<in>set s. cls c"
    by (metis set_takeWhileD)
  with ne show "s \<noteq> [] \<and> (\<forall>c\<in>set s. cls c)" by simp
next
  assume "s \<noteq> [] \<and> (\<forall>c\<in>set s. cls c)"
  then have tw: "takeWhile cls s = s" and len: "1 \<le> length s"
    by (auto simp: Suc_le_eq)
  show "re_match_plus_dollar cls s"
    unfolding re_match_plus_dollar_def Let_def tw using len by simp
qed

lemma DEFAULT_TEXT_PATTERN_iff:
  "DEFAULT_TEXT_PATTERN isalnum s \<longleftrightarrow> s \<noteq> [] \<and> (\<forall>c\<in>set s. text_char isalnum c)"
  unfolding DEFAULT_TEXT_PATTERN_def
  by (rule re_match_plus_dollar_iff) (simp add: text_char_def isspace_def)

lemma set_py_strip: "set (py_strip s) \<subseteq> set s"
proof -
  have "set (py_strip s) \<subseteq> set (dropWhile isspace s)"
    unfolding py_strip_def using set_dropWhileD by fastforce
  also have "\<dots> \<subseteq> set s"
    using set_dropWhileD by fastforce
  finally show ?thesis .
qed

lemma length_py_strip: "length (py_strip s) \<le> length s"
proof -
  have "length (py_strip s) \<le> length (dropWhile isspace s)"
    unfolding py_strip_def by (metis length_dropWhile_le length_rev)
  also have "\<dots> \<le> length s"
    by (rule length_dropWhile_le)
  finally show ?thesis .
qed

lemma py_strip_idem: "py_strip (py_strip s) = py_strip s"
proof (cases "py_strip s = []")
  case True
  have "py_strip [] = []" by (simp add: py_strip_def)
  with True show ?thesis by simp
next
  case False
  let ?g = "dropWhile isspace s"
  let ?h = "dropWhile isspace (rev ?g)"
  have r: "py_strip s = rev ?h" by (simp add: py_strip_def)
  with False have hne: "?h \<noteq> []" by simp
  have gne: "?g \<noteq> []"
  proof
    assume e: "?g = []"
    have "?h = []" unfolding e by simp
    with hne show False by (simp only:)
  qed
  have h_hd: "\<not> isspace (hd ?h)" using hne by (rule hd_dropWhile)
  have g_hd: "\<not> isspace (hd ?g)" using gne by (rule hd_dropWhile)
  obtain n where n: "?h = drop n (rev ?g)"
    by (metis dropWhile_eq_drop)
  with hne have nlt: "n < length ?g" by simp
  have "rev ?h = take (length ?g - n) ?g"
    by (simp add: n rev_drop)
  with nlt gne have "hd (rev ?h) = hd ?g"
    by (simp add: hd_take)
  with g_hd have "\<not> isspace (hd (rev ?h))" by simp
  with hne have front: "dropWhile isspace (rev ?h) = rev ?h"
    by (cases "rev ?h") auto
  from h_hd hne have rear: "dropWhile isspace ?h = ?h"
    by (cases "?h") auto
  show ?thesis
    unfolding r by (simp add: py_strip_def front rear)
qed

lemma validate_text_idempotent_nonempty:
  assumes ok: "validate_text (PStr s) max_length (DEFAULT_TEXT_PATTERN isalnum) allow_newlines = Inr r"
    and ne: "r \<noteq> []"
  shows "validate_text (PStr r) max_length (DEFAULT_TEXT_PATTERN isalnum) allow_newlines = Inr r"
proof -
  define p where "p = (if allow_newlines then (\<lambda>c::nat. c \<ge> 32 \<or> c = 10 \<or> c = 9)
                        else (\<lambda>c. c \<ge> 32 \<and> c \<noteq> 10 \<and> c \<noteq> 13))"
  have vt: "validate_text (PStr t) max_length (DEFAULT_TEXT_PATTERN isalnum) allow_newlines =
      (if int (length t) > max_length
       then Inl (ValueError (ustr ''Text too long: '' @ str_of_int (int (length t))
                                @ ustr '' > '' @ str_of_int max_length))
       else if \<not> DEFAULT_TEXT_PATTERN isalnum (filter p t)
            then Inl (ValueError (ustr ''Text contains invalid characters''))
            else Inr (py_strip (filter p t)))" for t
    by (simp add: validate_text_def p_def Let_def)
  from ok have len: "\<not> int (length s) > max_length"
    and pat: "DEFAULT_TEXT_PATTERN isalnum (filter p s)"
    and r: "r = py_strip (filter p s)"
    by (auto simp: vt split: if_splits)
  have sub: "set r \<subseteq> set (filter p s)"
    unfolding r by (rule set_py_strip)
  then have "\<forall>c\<in>set r. p c" by auto
  then have fr: "filter p r = r" by simp
  from pat sub have "\<forall>c\<in>set r. text_char isalnum c"
    by (auto simp: DEFAULT_TEXT_PATTERN_iff)
  with ne have pat': "DEFAULT_TEXT_PATTERN isalnum r"
    by (simp add: DEFAULT_TEXT_PATTERN_iff)
  have "length r \<le> length (filter p s)"
    unfolding r by (rule length_py_strip)
  also have "\<dots> \<le> length s" by simp
  finally have len': "\<not> int (length r) > max_length" using len by simp
  have "py_strip r = r"
    unfolding r by (rule py_strip_idem)
  with len' pat' fr show ?thesis
    by (simp add: vt)
qed

text \<open>
  C2 as stated fails: a single space is accepted with the empty string as result, and the
  empty string is rejected, since the pattern needs at least one character.
\<close>

theorem validate_text_idempotence_counterexample:
  "validate_text (PStr (ustr '' '')) MAX_TEXT_LENGTH (DEFAULT_TEXT_PATTERN ascii_isalnum) True = Inr []
   \<and> validate_text (PStr []) MAX_TEXT_LENGTH (DEFAULT_TEXT_PATTERN ascii_isalnum) True
       = Inl (ValueError (ustr ''Text contains invalid characters''))"
  by (simp add: validate_text_def MAX_TEXT_LENGTH_def DEFAULT_TEXT_PATTERN_def
        re_match_plus_dollar_def text_char_def isspace_def py_strip_def ustr_def Let_def)

text \<open>
  C2, amended. With the default maximal length, pattern and newline setting, for every
  string \<open>s\<close> that \<open>validate_text\<close> accepts with a non-empty result \<open>r\<close>,
  \<open>validate_text\<close> accepts \<open>r\<close> and returns \<open>r\<close> again.
\<close>

theorem validate_text_idempotent_on_nonempty_results:
  assumes "validate_text (PStr s) MAX_TEXT_LENGTH (DEFAULT_TEXT_PATTERN isalnum) True = Inr r"
    and "r \<noteq> []"
  shows "validate_text (PStr r) MAX_TEXT_LENGTH (DEFAULT_TEXT_PATTERN isalnum) True = Inr r"
  using assms by (rule validate_text_idempotent_nonempty)

theorem validate_text_idempotent_on_nonempty_results_witness:
  "validate_text (PStr (ustr '' Hi! '')) MAX_TEXT_LENGTH (DEFAULT_TEXT_PATTERN ascii_isalnum) True
     = Inr (ustr ''Hi!'')
   \<and> ustr ''Hi!'' \<noteq> []
   \<and> validate_text (PStr (ustr ''Hi!'')) MAX_TEXT_LENGTH (DEFAULT_TEXT_PATTERN ascii_isalnum) True
     = Inr (ustr ''Hi!'')"
proof -
  have ok: "validate_text (PStr (ustr '' Hi! '')) MAX_TEXT_LENGTH (DEFAULT_TEXT_PATTERN ascii_isalnum) True
     = Inr (ustr ''Hi!'')"
    by (simp add: validate_text_def MAX_TEXT_LENGTH_def DEFAULT_TEXT_PATTERN_def
        re_match_plus_dollar_def text_char_def isspace_def py_strip_def ustr_def Let_def
        ascii_isalnum_def)
  have ne: "ustr ''Hi!'' \<noteq> []" by (simp add: ustr_def)
  from validate_text_idempotent_on_nonempty_results[OF ok ne] ok ne show ?thesis by simp
qed



lemma validate_text_carriage_return_rejected:
  "validate_text (PStr [13]) MAX_TEXT_LENGTH (DEFAULT_TEXT_PATTERN ascii_isalnum) True = Inl (ValueError (ustr ''Text contains invalid characters''))"
  by (simp add: validate_text_def MAX_TEXT_LENGTH_def DEFAULT_TEXT_PATTERN_def
        re_match_plus_dollar_def text_char_def isspace_def py_strip_def ustr_def Let_def)

section \<open>Properties of the command router\<close>

lemma handle_pycmd_parsed:
  assumes "parse_pycmd cmd = Some (callback_id, function_name, args_json)"
  shows "handle_pycmd lib API_REGISTRY st now rv cmd =
     (if \<not> fst (check st now (template_identifier lib rv) function_name DEFAULT_API_RATE_LIMIT_PER_SECOND)
      then outcome (snd (check st now (template_identifier lib rv) function_name DEFAULT_API_RATE_LIMIT_PER_SECOND))
             (send_callback lib rv callback_id (failure_response (ustr ''Rate limit exceeded'')))
      else if API_REGISTRY function_name = None
      then outcome (snd (check st now (template_identifier lib rv) function_name DEFAULT_API_RATE_LIMIT_PER_SECOND))
             (send_callback lib rv callback_id
                (failure_response (ustr ''Unknown API function: '' @ function_name)))
      else
        (case invoke_api lib API_REGISTRY rv callback_id function_name args_json of
           Inr scripts \<Rightarrow>
             \<lparr>limiter = snd (check st now (template_identifier lib rv) function_name DEFAULT_API_RATE_LIMIT_PER_SECOND),
              evaluated = scripts, raised = None\<rparr>
         | Inl e \<Rightarrow>
             if is_Exception e
             then outcome (snd (check st now (template_identifier lib rv) function_name DEFAULT_API_RATE_LIMIT_PER_SECOND))
                    (send_callback lib rv callback_id
                       (failure_response (ustr ''Operation failed: '' @ exc_kind e)))
             else \<lparr>limiter = snd (check st now (template_identifier lib rv) function_name DEFAULT_API_RATE_LIMIT_PER_SECOND),
                   evaluated = [], raised = Some e\<rparr>))"
  using assms by (auto simp: handle_pycmd_def Let_def split_beta split: sum.splits)

lemma send_callback_invalid_id:
  "\<not> CALLBACK_ID_PATTERN_match (isdecimal lib) callback_id \<Longrightarrow>
     send_callback lib rv callback_id response = Inr []"
  by (simp add: send_callback_def)

lemma invoke_api_invalid_id:
  assumes "\<not> CALLBACK_ID_PATTERN_match (isdecimal lib) callback_id"
    and "invoke_api lib API_REGISTRY rv callback_id function_name args_json = Inr scripts"
  shows "scripts = []"
  using assms
  by (auto simp: invoke_api_def send_callback_invalid_id split: if_splits sum.splits option.splits)

lemma parse_pycmd_no_colon:
  assumes "prefix (ustr ''ankidroidjs:'') cmd" and "58 \<notin> set (drop 12 cmd)"
  shows "parse_pycmd cmd = None"
proof -
  from assms(1) obtain rest where cmd: "cmd = ustr ''ankidroidjs:'' @ rest"
    by (auto simp: prefix_def)
  with assms(2) have "58 \<notin> set rest" by (simp add: ustr_def)
  then have dw: "dropWhile (\<lambda>c. c \<noteq> 58) rest = []"
    by (metis (mono_tags, lifting) dropWhile_eq_Nil_conv)
  have "py_split cmd 58 3 = [ustr ''ankidroidjs'', rest]"
    by (simp add: cmd ustr_def numeral_3_eq_3 numeral_2_eq_2 dw)
  then show ?thesis
    by (simp add: parse_pycmd_def)
qed

text \<open>
  C6. Protocol-level failures never trigger a callback delivery: for a command that
  lacks the prefix \<open>ankidroidjs:\<close>, or has no colon behind the prefix (fewer than two
  colon-delimited parts), or whose callback id does not match \<open>^-?\d+$\<close>, the router
  hands no script to the web view.
\<close>

theorem protocol_failures_deliver_nothing:
  assumes "\<not> prefix (ustr ''ankidroidjs:'') cmd
         \<or> 58 \<notin> set (drop 12 cmd)
         \<or> (\<exists>callback_id function_name args_json.
              parse_pycmd cmd = Some (callback_id, function_name, args_json)
              \<and> \<not> CALLBACK_ID_PATTERN_match (isdecimal lib) callback_id)"
  shows "evaluated (handle_pycmd lib API_REGISTRY st now rv cmd) = []"
proof (cases "parse_pycmd cmd")
  case None
  then show ?thesis by (simp add: handle_pycmd_def)
next
  case (Some t)
  obtain callback_id function_name args_json where t: "t = (callback_id, function_name, args_json)"
    by (cases t) auto
  with Some have parse: "parse_pycmd cmd = Some (callback_id, function_name, args_json)" by simp
  then have pre: "prefix (ustr ''ankidroidjs:'') cmd"
    by (auto simp: parse_pycmd_def split: if_splits)
  from parse pre have colon: "\<not> 58 \<notin> set (drop 12 cmd)"
    using parse_pycmd_no_colon[of cmd] by auto
  from assms pre colon parse have bad: "\<not> CALLBACK_ID_PATTERN_match (isdecimal lib) callback_id"
    by auto
  show ?thesis
    unfolding handle_pycmd_parsed[OF parse]
    using invoke_api_invalid_id[OF bad]
    by (auto simp: outcome_def send_callback_invalid_id[OF bad] split: sum.splits)
qed

lemma sample_check_admits:
  "fst (check empty_limiter 0 (template_identifier sample_lib sample_reviewer) fn
          DEFAULT_API_RATE_LIMIT_PER_SECOND)"
  by (simp add: check_def empty_limiter_def Let_def RATE_LIMITER_CLEANUP_INTERVAL_SEC_def)

theorem protocol_failures_deliver_nothing_witness:
  "\<not> prefix (ustr ''ankidroidjs:'') (ustr ''other:command'')
   \<and> evaluated (handle_pycmd sample_lib [ustr ''f'' \<mapsto> returns_object] empty_limiter 0
                  sample_reviewer (ustr ''other:command'')) = []
   \<and> 58 \<notin> set (drop 12 (ustr ''ankidroidjs:5''))
   \<and> evaluated (handle_pycmd sample_lib [ustr ''f'' \<mapsto> returns_object] empty_limiter 0
                  sample_reviewer (ustr ''ankidroidjs:5'')) = []
   \<and> parse_pycmd (ustr ''ankidroidjs:abc:f:{}'') = Some (ustr ''abc'', ustr ''f'', ustr ''{}'')
   \<and> \<not> CALLBACK_ID_PATTERN_match (isdecimal sample_lib) (ustr ''abc'')
   \<and> evaluated (handle_pycmd sample_lib [ustr ''f'' \<mapsto> returns_object] empty_limiter 0
                  sample_reviewer (ustr ''ankidroidjs:abc:f:{}'')) = []"
proof -
  have a: "\<not> prefix (ustr ''ankidroidjs:'') (ustr ''other:command'')"
    by (simp add: ustr_def)
  have b: "58 \<notin> set (drop 12 (ustr ''ankidroidjs:5''))"
    by (simp add: ustr_def)
  have c: "parse_pycmd (ustr ''ankidroidjs:abc:f:{}'') = Some (ustr ''abc'', ustr ''f'', ustr ''{}'')"
    by (simp add: parse_pycmd_def ustr_def numeral_3_eq_3)
  have d: "\<not> CALLBACK_ID_PATTERN_match (isdecimal sample_lib) (ustr ''abc'')"
    by (simp add: CALLBACK_ID_PATTERN_match_def re_match_plus_dollar_def sample_lib_def
          ascii_isdecimal_def ustr_def)
  from a b c d
    protocol_failures_deliver_nothing[of "ustr ''other:command''" sample_lib]
    protocol_failures_deliver_nothing[of "ustr ''ankidroidjs:5''" sample_lib]
    protocol_failures_deliver_nothing[of "ustr ''ankidroidjs:abc:f:{}''" sample_lib]
  show ?thesis by blast
qed

lemma invoke_api_oversized:
  "int (length args_json) > MAX_JSON_PAYLOAD_BYTES \<Longrightarrow>
     invoke_api lib API_REGISTRY rv callback_id function_name args_json =
       Inl (ValueError (ustr ''JSON payload too large: ''
                        @ str_of_int (int (length args_json)) @ ustr '' bytes''))"
  by (simp add: invoke_api_def)

lemma invoke_api_call:
  assumes "\<not> int (length args_json) > MAX_JSON_PAYLOAD_BYTES"
    and "parse_args lib args_json = Inr args"
    and "API_REGISTRY function_name = Some func"
  shows "invoke_api lib API_REGISTRY rv callback_id function_name args_json =
     (case apply_api func args of
        Inl e \<Rightarrow> Inl e
      | Inr result \<Rightarrow> send_callback lib rv callback_id (success_response result))"
  using assms by (simp add: invoke_api_def)

text \<open>
  C1 as stated fails: for a command that passes the rate check, names an unregistered
  function and carries 10241 characters of arguments, the response is the unknown-function
  error, not \<open>Operation failed: ValueError\<close>.
\<close>

theorem oversized_payload_unregistered_counterexample:
  \<open>parse_pycmd (ustr ''ankidroidjs:1:nope:'' @ replicate 10241 97)
      = Some (ustr ''1'', ustr ''nope'', replicate 10241 97)
   \<and> int (length (replicate 10241 (97::nat))) > MAX_JSON_PAYLOAD_BYTES
   \<and> fst (check empty_limiter 0 (template_identifier sample_lib sample_reviewer) (ustr ''nope'')
            DEFAULT_API_RATE_LIMIT_PER_SECOND)
   \<and> evaluated (handle_pycmd sample_lib Map.empty empty_limiter 0 sample_reviewer
                  (ustr ''ankidroidjs:1:nope:'' @ replicate 10241 97))
      = [ustr ''window._ankidroidJsCallback(1, {"success": false, "error": "Unknown API function: nope"});'']\<close>
proof -
  have parse: "parse_pycmd (ustr ''ankidroidjs:1:nope:'' @ replicate 10241 97)
      = Some (ustr ''1'', ustr ''nope'', replicate 10241 97)"
    by (simp add: parse_pycmd_def ustr_def numeral_3_eq_3)
  have cb: "CALLBACK_ID_PATTERN_match (isdecimal sample_lib) (ustr ''1'')"
    by (simp add: CALLBACK_ID_PATTERN_match_def re_match_plus_dollar_def sample_lib_def
          ascii_isdecimal_def ustr_def)
  have dumps: \<open>json_dumps sample_lib (failure_response (ustr ''Unknown API function: '' @ ustr ''nope''))
      = Inr (ustr ''{"success": false, "error": "Unknown API function: nope"}'')\<close>
    by (simp add: sample_lib_def sample_json_dumps_def failure_response_def ustr_def)
  show ?thesis
    unfolding handle_pycmd_parsed[OF parse]
    using parse sample_check_admits[of "ustr ''nope''"] cb dumps
    by (simp add: outcome_def send_callback_def sample_reviewer_def callback_js_def
          MAX_JSON_PAYLOAD_BYTES_def) (simp add: ustr_def)
qed

text \<open>
  C1, amended. For every command that passes the rate check and whose argument text is
  longer than 10240 characters: if the function name is registered, the router responds
  with the failure \<open>Operation failed: ValueError\<close>; the registry lookup comes before the
  size check, so for an unregistered name it responds with the failure
  \<open>Unknown API function: name\<close>.
\<close>

theorem oversized_payload_after_lookup:
  assumes "parse_pycmd cmd = Some (callback_id, function_name, args_json)"
    and "fst (check st now (template_identifier lib rv) function_name DEFAULT_API_RATE_LIMIT_PER_SECOND)"
    and "int (length args_json) > MAX_JSON_PAYLOAD_BYTES"
  shows "(API_REGISTRY function_name \<noteq> None \<longrightarrow>
            handle_pycmd lib API_REGISTRY st now rv cmd =
              outcome (snd (check st now (template_identifier lib rv) function_name
                              DEFAULT_API_RATE_LIMIT_PER_SECOND))
                (send_callback lib rv callback_id
                   (failure_response (ustr ''Operation failed: ValueError''))))
       \<and> (API_REGISTRY function_name = None \<longrightarrow>
            handle_pycmd lib API_REGISTRY st now rv cmd =
              outcome (snd (check st now (template_identifier lib rv) function_name
                              DEFAULT_API_RATE_LIMIT_PER_SECOND))
                (send_callback lib rv callback_id
                   (failure_response (ustr ''Unknown API function: '' @ function_name))))"
proof -
  have k: "ustr ''Operation failed: '' @ ustr ''ValueError'' = ustr ''Operation failed: ValueError''"
    by (simp add: ustr_def)
  show ?thesis
    unfolding handle_pycmd_parsed[OF assms(1)]
    using assms(2) by (simp add: invoke_api_oversized[OF assms(3)] ValueError_def k)
qed

theorem oversized_payload_after_lookup_witness:
  \<open>parse_pycmd (ustr ''ankidroidjs:1:f:'' @ replicate 10241 97)
      = Some (ustr ''1'', ustr ''f'', replicate 10241 97)
   \<and> fst (check empty_limiter 0 (template_identifier sample_lib sample_reviewer) (ustr ''f'')
            DEFAULT_API_RATE_LIMIT_PER_SECOND)
   \<and> int (length (replicate 10241 (97::nat))) > MAX_JSON_PAYLOAD_BYTES
   \<and> [ustr ''f'' \<mapsto> returns_object] (ustr ''f'') \<noteq> None
   \<and> evaluated (handle_pycmd sample_lib [ustr ''f'' \<mapsto> returns_object] empty_limiter 0 sample_reviewer
                  (ustr ''ankidroidjs:1:f:'' @ replicate 10241 97))
      = [ustr ''window._ankidroidJsCallback(1, {"success": false, "error": "Operation failed: ValueError"});'']\<close>
proof -
  have parse: "parse_pycmd (ustr ''ankidroidjs:1:f:'' @ replicate 10241 97)
      = Some (ustr ''1'', ustr ''f'', replicate 10241 97)"
    by (simp add: parse_pycmd_def ustr_def numeral_3_eq_3)
  have rate: "fst (check empty_limiter 0 (template_identifier sample_lib sample_reviewer) (ustr ''f'')
            DEFAULT_API_RATE_LIMIT_PER_SECOND)"
    by (rule sample_check_admits)
  have size: "int (length (replicate 10241 (97::nat))) > MAX_JSON_PAYLOAD_BYTES"
    by (simp add: MAX_JSON_PAYLOAD_BYTES_def)
  have reg: "[ustr ''f'' \<mapsto> returns_object] (ustr ''f'') \<noteq> None" by simp
  have cb: "CALLBACK_ID_PATTERN_match (isdecimal sample_lib) (ustr ''1'')"
    by (simp add: CALLBACK_ID_PATTERN_match_def re_match_plus_dollar_def sample_lib_def
          ascii_isdecimal_def ustr_def)
  have dumps: \<open>json_dumps sample_lib (failure_response (ustr ''Operation failed: ValueError''))
      = Inr (ustr ''{"success": false, "error": "Operation failed: ValueError"}'')\<close>
    by (simp add: sample_lib_def sample_json_dumps_def failure_response_def ustr_def)
  have js: \<open>callback_js (ustr ''1'') (ustr ''{"success": false, "error": "Operation failed: ValueError"}'')
      = ustr ''window._ankidroidJsCallback(1, {"success": false, "error": "Operation failed: ValueError"});''\<close>
    by (simp add: callback_js_def ustr_def)
  from oversized_payload_after_lookup[OF parse rate size, of "[ustr ''f'' \<mapsto> returns_object]"] reg
  have "handle_pycmd sample_lib [ustr ''f'' \<mapsto> returns_object] empty_limiter 0 sample_reviewer
          (ustr ''ankidroidjs:1:f:'' @ replicate 10241 97)
        = outcome (snd (check empty_limiter 0 (template_identifier sample_lib sample_reviewer) (ustr ''f'')
                          DEFAULT_API_RATE_LIMIT_PER_SECOND))
            (send_callback sample_lib sample_reviewer (ustr ''1'')
               (failure_response (ustr ''Operation failed: ValueError'')))"
    by blast
  then have \<open>evaluated (handle_pycmd sample_lib [ustr ''f'' \<mapsto> returns_object] empty_limiter 0 sample_reviewer
                  (ustr ''ankidroidjs:1:f:'' @ replicate 10241 97))
      = [callback_js (ustr ''1'') (ustr ''{"success": false, "error": "Operation failed: ValueError"}'')]\<close>
    by (simp add: outcome_def send_callback_def cb dumps sample_reviewer_def)
  with parse rate size reg js show ?thesis by simp
qed

lemma handle_pycmd_operation_raises:
  assumes parse: "parse_pycmd cmd = Some (callback_id, function_name, args_json)"
    and rate: "fst (check st now (template_identifier lib rv) function_name DEFAULT_API_RATE_LIMIT_PER_SECOND)"
    and size: "\<not> int (length args_json) > MAX_JSON_PAYLOAD_BYTES"
    and args: "parse_args lib args_json = Inr args"
    and reg: "API_REGISTRY function_name = Some func"
    and fails: "apply_api func args = Inl e"
    and exc: "is_Exception e"
  shows "handle_pycmd lib API_REGISTRY st now rv cmd =
           outcome (snd (check st now (template_identifier lib rv) function_name
                           DEFAULT_API_RATE_LIMIT_PER_SECOND))
             (send_callback lib rv callback_id
                (failure_response (ustr ''Operation failed: '' @ exc_kind e)))"
  unfolding handle_pycmd_parsed[OF parse]
  using rate reg fails exc
  by (simp add: invoke_api_call[where API_REGISTRY=API_REGISTRY and function_name=function_name,
                                OF size args reg])

text \<open>
  C5. The error response for a failing operation holds the name of the exception's class
  and not its message: two invocations whose operations raise exceptions of the same
  class (derived from \<open>Exception\<close>) have the same outcome whatever the messages are, the
  failure response \<open>Operation failed: \<close> followed by the class name.
\<close>

theorem error_payload_independent_of_message:
  assumes "parse_pycmd cmd = Some (callback_id, function_name, args_json)"
    and "fst (check st now (template_identifier lib rv) function_name DEFAULT_API_RATE_LIMIT_PER_SECOND)"
    and "\<not> int (length args_json) > MAX_JSON_PAYLOAD_BYTES"
    and "parse_args lib args_json = Inr args"
    and "REGISTRY1 function_name = Some func1" and "apply_api func1 args = Inl e1"
    and "REGISTRY2 function_name = Some func2" and "apply_api func2 args = Inl e2"
    and "is_Exception e1" and "is_Exception e2" and "exc_kind e1 = exc_kind e2"
  shows "handle_pycmd lib REGISTRY1 st now rv cmd = handle_pycmd lib REGISTRY2 st now rv cmd
       \<and> handle_pycmd lib REGISTRY1 st now rv cmd =
           outcome (snd (check st now (template_identifier lib rv) function_name
                           DEFAULT_API_RATE_LIMIT_PER_SECOND))
             (send_callback lib rv callback_id
                (failure_response (ustr ''Operation failed: '' @ exc_kind e1)))"
  using handle_pycmd_operation_raises[where API_REGISTRY=REGISTRY1 and function_name=function_name,
                                      OF assms(1-4) assms(5,6) assms(9)]
        handle_pycmd_operation_raises[where API_REGISTRY=REGISTRY2 and function_name=function_name,
                                      OF assms(1-4) assms(7,8) assms(10)] assms(11)
  by simp

theorem error_payload_independent_of_message_witness:
  \<open>exc_message (ValueError (ustr ''card 1234 has no field Secret''))
      \<noteq> exc_message (ValueError (ustr ''deck is empty''))
   \<and> evaluated (handle_pycmd sample_lib [ustr ''f'' \<mapsto> failing_one] empty_limiter 0 sample_reviewer
                  (ustr ''ankidroidjs:7:f:{}''))
      = [ustr ''window._ankidroidJsCallback(7, {"success": false, "error": "Operation failed: ValueError"});'']
   \<and> evaluated (handle_pycmd sample_lib [ustr ''f'' \<mapsto> failing_two] empty_limiter 0 sample_reviewer
                  (ustr ''ankidroidjs:7:f:{}''))
      = [ustr ''window._ankidroidJsCallback(7, {"success": false, "error": "Operation failed: ValueError"});'']\<close>
proof -
  have parse: "parse_pycmd (ustr ''ankidroidjs:7:f:{}'') = Some (ustr ''7'', ustr ''f'', ustr ''{}'')"
    by (simp add: parse_pycmd_def ustr_def numeral_3_eq_3)
  have rate: "fst (check empty_limiter 0 (template_identifier sample_lib sample_reviewer) (ustr ''f'')
            DEFAULT_API_RATE_LIMIT_PER_SECOND)"
    by (rule sample_check_admits)
  have size: "\<not> int (length (ustr ''{}'')) > MAX_JSON_PAYLOAD_BYTES"
    by (simp add: MAX_JSON_PAYLOAD_BYTES_def ustr_def)
  have args: "parse_args sample_lib (ustr ''{}'') = Inr (PDict [])"
    by (simp add: parse_args_def sample_lib_def sample_json_loads_def)
  have r1: "[ustr ''f'' \<mapsto> failing_one] (ustr ''f'') = Some failing_one" by simp
  have r2: "[ustr ''f'' \<mapsto> failing_two] (ustr ''f'') = Some failing_two" by simp
  have f1: "apply_api failing_one (PDict []) = Inl (ValueError (ustr ''card 1234 has no field Secret''))"
    by (simp add: apply_api_def failing_one_def)
  have f2: "apply_api failing_two (PDict []) = Inl (ValueError (ustr ''deck is empty''))"
    by (simp add: apply_api_def failing_two_def)
  have x1: "is_Exception (ValueError (ustr ''card 1234 has no field Secret''))"
    and x2: "is_Exception (ValueError (ustr ''deck is empty''))"
    and k: "exc_kind (ValueError (ustr ''card 1234 has no field Secret''))
              = exc_kind (ValueError (ustr ''deck is empty''))"
    by (simp_all add: ValueError_def)
  have msg: "exc_message (ValueError (ustr ''card 1234 has no field Secret''))
      \<noteq> exc_message (ValueError (ustr ''deck is empty''))"
    by (simp add: ValueError_def ustr_def)
  have cb: "CALLBACK_ID_PATTERN_match (isdecimal sample_lib) (ustr ''7'')"
    by (simp add: CALLBACK_ID_PATTERN_match_def re_match_plus_dollar_def sample_lib_def
          ascii_isdecimal_def ustr_def)
  have sent: \<open>send_callback sample_lib sample_reviewer (ustr ''7'')
       (failure_response (ustr ''Operation failed: ''
          @ exc_kind (ValueError (ustr ''card 1234 has no field Secret''))))
     = Inr [ustr ''window._ankidroidJsCallback(7, {"success": false, "error": "Operation failed: ValueError"});'']\<close>
    by (simp add: send_callback_def cb sample_reviewer_def)
       (simp add: sample_lib_def sample_json_dumps_def failure_response_def callback_js_def
          ValueError_def ustr_def)
  note th = error_payload_independent_of_message[where ?REGISTRY1.0="[ustr ''f'' \<mapsto> failing_one]"
         and ?REGISTRY2.0="[ustr ''f'' \<mapsto> failing_two]" and function_name="ustr ''f''",
         OF parse rate size args r1 f1 r2 f2 x1 x2 k]
  have same: "handle_pycmd sample_lib [ustr ''f'' \<mapsto> failing_two] empty_limiter 0 sample_reviewer
                  (ustr ''ankidroidjs:7:f:{}'')
              = handle_pycmd sample_lib [ustr ''f'' \<mapsto> failing_one] empty_limiter 0 sample_reviewer
                  (ustr ''ankidroidjs:7:f:{}'')"
    using th by (rule conjunct1[THEN sym])
  have one: "handle_pycmd sample_lib [ustr ''f'' \<mapsto> failing_one] empty_limiter 0 sample_reviewer
                  (ustr ''ankidroidjs:7:f:{}'')
              = outcome (snd (check empty_limiter 0 (template_identifier sample_lib sample_reviewer)
                                (ustr ''f'') DEFAULT_API_RATE_LIMIT_PER_SECOND))
                  (send_callback sample_lib sample_reviewer (ustr ''7'')
                     (failure_response (ustr ''Operation failed: ''
                        @ exc_kind (ValueError (ustr ''card 1234 has no field Secret'')))))"
    using th by (rule conjunct2)
  show ?thesis
    unfolding same unfolding one sent using msg by (simp add: outcome_def)
qed




section \<open>Properties of sanitize_for_logging\<close>




















end
